theory Spec2Isabelle
  imports Complex_Main "HOL-Library.Multiset"
begin

section \<open>Python values, exceptions and the built-in coercions\<close>

text \<open>
  The program is dynamically typed: \<open>add_student\<close> passes whatever it is given for
  \<open>cgpa\<close> and \<open>graduation_year\<close> to the built-ins \<open>float\<close> and \<open>int\<close>.  A value is
  an integer, a float, a string or \<open>None\<close>.  A float is a real number or NaN (the
  infinities and binary rounding are not modelled).
\<close>

datatype pyfloat = Num real | NaN

datatype pyval = PyInt int | PyFloat pyfloat | PyStr string | PyNone

datatype py_exception = TypeError | ValueError | KeyError | ZeroDivisionError

text \<open>
  How \<open>float\<close> and \<open>int\<close> read a string is the interpreter's numeric-literal grammar,
  which is no part of this repository: the two readers are parameters of the model
  (\<open>None\<close>: the string is not a literal, the built-in raises \<open>ValueError\<close>).
\<close>

record str_parsers =
  float_of_str :: "string \<Rightarrow> pyfloat option"
  int_of_str :: "string \<Rightarrow> int option"

fun py_float :: "str_parsers \<Rightarrow> pyval \<Rightarrow> py_exception + pyfloat" where
  "py_float P (PyInt n) = Inr (Num (of_int n))"
| "py_float P (PyFloat x) = Inr x"
| "py_float P (PyStr s) = (case float_of_str P s of None \<Rightarrow> Inl ValueError | Some x \<Rightarrow> Inr x)"
| "py_float P PyNone = Inl TypeError"

text \<open>\<open>int\<close> of a float truncates towards zero; \<open>int\<close> of NaN raises \<open>ValueError\<close>.\<close>

definition trunc :: "real \<Rightarrow> int" where
  "trunc x = (if 0 \<le> x then \<lfloor>x\<rfloor> else \<lceil>x\<rceil>)"

fun py_int :: "str_parsers \<Rightarrow> pyval \<Rightarrow> py_exception + int" where
  "py_int P (PyInt n) = Inr n"
| "py_int P (PyFloat (Num x)) = Inr (trunc x)"
| "py_int P (PyFloat NaN) = Inl ValueError"
| "py_int P (PyStr s) = (case int_of_str P s of None \<Rightarrow> Inl ValueError | Some n \<Rightarrow> Inr n)"
| "py_int P PyNone = Inl TypeError"

text \<open>True division \<open>a / b\<close> of two integers raises on a zero divisor.\<close>

definition py_truediv :: "int \<Rightarrow> int \<Rightarrow> py_exception + real" where
  "py_truediv a b = (if b = 0 then Inl ZeroDivisionError else Inr (real_of_int a / real_of_int b))"

text \<open>
  \<open>round(x, 2)\<close> rounds to two decimals, ties to the even neighbour (on the real value:
  the binary representation of the float is not modelled).
\<close>

definition round_half_even :: "real \<Rightarrow> int" where
  "round_half_even x =
     (let f = \<lfloor>x\<rfloor>; d = x - of_int f
      in if d < 1 / 2 then f else if 1 / 2 < d then f + 1 else if even f then f else f + 1)"

definition round2 :: "real \<Rightarrow> real" where
  "round2 x = of_int (round_half_even (x * 100)) / 100"

fun round2f :: "pyfloat \<Rightarrow> pyfloat" where
  "round2f (Num x) = Num (round2 x)"
| "round2f NaN = NaN"


section \<open>The University class\<close>

text \<open>
  \<open>students_df\<close> is a pandas frame with the columns \<open>student_id\<close>, \<open>name\<close>,
  \<open>university\<close>, \<open>degree\<close>, \<open>cgpa\<close>, \<open>graduation_year\<close>, \<open>enrollment_date\<close>: a list of rows
  in frame order.  Every frame the class builds is indexed by its own \<open>student_id\<close>
  column (\<open>set_index('student_id', drop=False)\<close>), and \<open>pd.concat\<close> appends rows and index
  labels alike, so the index label of a row is its \<open>student_id\<close> cell and is not stored
  twice.  A cell that a bulk record left out is NaN in the frame: \<open>None\<close> for the text
  columns, \<^term>\<open>NaN\<close> for \<open>cgpa\<close>.  The frame operations are read as pandas 2 defines
  them.  What the methods print is not modelled.
\<close>

record student_row =
  student_id :: "string option"
  name :: "string option"
  university :: string
  degree :: "string option"
  cgpa :: pyfloat
  graduation_year :: int
  enrollment_date :: string

record university_obj =
  uni_name :: string
  csv_file :: string
  students_df :: "student_row list"

text \<open>
  The constructor when no CSV file exists yet: an empty frame.  (With a file the frame is
  whatever \<open>pd.read_csv\<close> returns, indexed by \<open>student_id\<close>; every theorem below that
  speaks of a store holds for an arbitrary row list.)
\<close>

definition csv_path :: "string \<Rightarrow> string" where
  "csv_path nm = ''data/'' @ map (\<lambda>c. if c = CHR '' '' then CHR ''_'' else c) nm @ ''_students.csv''"

definition new_university :: "string \<Rightarrow> university_obj" where
  "new_university nm = \<lparr>uni_name = nm, csv_file = csv_path nm, students_df = []\<rparr>"

subsection \<open>add_student\<close>

text \<open>
  The \<open>try\<close> block builds a one-row frame, evaluating \<open>float(cgpa)\<close> and then
  \<open>int(graduation_year)\<close>, and concatenates it to \<open>students_df\<close>; any exception is caught
  and the method returns \<open>False\<close> with the object untouched (the assignment to
  \<open>self.students_df\<close> is the last statement that can be skipped).  The result is the
  returned flag and the object after the call.  \<open>today\<close> is the string
  \<open>datetime.now().strftime('%Y-%m-%d')\<close>.
\<close>

definition add_student ::
  "str_parsers \<Rightarrow> string \<Rightarrow> university_obj \<Rightarrow> string \<Rightarrow> string \<Rightarrow> string \<Rightarrow> pyval \<Rightarrow> pyval
     \<Rightarrow> bool \<times> university_obj" where
  "add_student P today u sid nm deg cg yr =
     (case py_float P cg of
        Inl e \<Rightarrow> (False, u)
      | Inr c \<Rightarrow>
         (case py_int P yr of
            Inl e \<Rightarrow> (False, u)
          | Inr y \<Rightarrow>
             (True, u\<lparr>students_df := students_df u @
                [\<lparr>student_id = Some sid, name = Some nm, university = uni_name u,
                  degree = Some deg, cgpa = c, graduation_year = y,
                  enrollment_date = today\<rparr>]\<rparr>)))"

subsection \<open>verify_student\<close>

text \<open>
  \<open>student_id in self.students_df.index\<close> holds when some row carries the label.
  \<open>self.students_df.loc[student_id]\<close> is that row when exactly one row carries it; when
  several do, pandas returns the frame of all of them, each \<open>student_data[...]\<close> is then
  a column, and \<open>int(student_data['graduation_year'])\<close> raises \<open>TypeError\<close> (a series of
  more than one element does not convert).  The \<open>except\<close> clause turns that into
  \<open>None\<close>.
\<close>

definition loc :: "student_row list \<Rightarrow> string \<Rightarrow> student_row list" where
  "loc df sid = filter (\<lambda>r. student_id r = Some sid) df"

definition verify_student :: "university_obj \<Rightarrow> string \<Rightarrow> student_row option" where
  "verify_student u sid =
     (case loc (students_df u) sid of
        [] \<Rightarrow> None
      | [r] \<Rightarrow> Some r
      | r # r' # rs \<Rightarrow> None)"

subsection \<open>add_students_bulk\<close>




fun collect :: "('e + 'a) list \<Rightarrow> 'e + 'a list" where
  "collect [] = Inr []"
| "collect (x # xs) =
     (case x of
        Inl e \<Rightarrow> Inl e
      | Inr a \<Rightarrow> (case collect xs of Inl e \<Rightarrow> Inl e | Inr as \<Rightarrow> Inr (a # as)))"




subsection \<open>get_top_students\<close>




subsection \<open>get_statistics\<close>

text \<open>
  The result is a dictionary from statistic names to numbers.  The pandas aggregations
  skip NaN cells; on no values the mean, median, maximum and minimum are NaN, and the
  sample standard deviation (denominator \<open>n - 1\<close>) is NaN on fewer than two values.
  \<open>nunique\<close> counts the distinct cells that are not missing.
\<close>

datatype stat = IntStat int | FloatStat pyfloat

definition cgpa_values :: "student_row list \<Rightarrow> real list" where
  "cgpa_values df = concat (map (\<lambda>r. case cgpa r of Num x \<Rightarrow> [x] | NaN \<Rightarrow> []) df)"

definition series_mean :: "real list \<Rightarrow> pyfloat" where
  "series_mean xs = (if xs = [] then NaN else Num (sum_list xs / real (length xs)))"

definition series_median :: "real list \<Rightarrow> pyfloat" where
  "series_median xs =
     (if xs = [] then NaN
      else let s = sort xs; n = length xs
           in if odd n then Num (s ! (n div 2))
              else Num ((s ! (n div 2 - 1) + s ! (n div 2)) / 2))"

definition series_max :: "real list \<Rightarrow> pyfloat" where
  "series_max xs = (case xs of [] \<Rightarrow> NaN | x # ys \<Rightarrow> Num (fold max ys x))"

definition series_min :: "real list \<Rightarrow> pyfloat" where
  "series_min xs = (case xs of [] \<Rightarrow> NaN | x # ys \<Rightarrow> Num (fold min ys x))"

definition series_std :: "real list \<Rightarrow> pyfloat" where
  "series_std xs =
     (if length xs < 2 then NaN
      else let m = sum_list xs / real (length xs)
           in Num (sqrt (sum_list (map (\<lambda>x. (x - m)\<^sup>2) xs) / real (length xs - 1))))"

definition nunique :: "string option list \<Rightarrow> int" where
  "nunique cells = int (length (remdups (concat (map (\<lambda>c. case c of Some d \<Rightarrow> [d] | None \<Rightarrow> []) cells))))"

definition get_statistics :: "university_obj \<Rightarrow> (string \<rightharpoonup> stat)" where
  "get_statistics u =
     (let df = students_df u; xs = cgpa_values (students_df u)
      in if df = [] then
           map_of
             [(''total_students'', IntStat 0),
              (''average_cgpa'', IntStat 0),
              (''median_cgpa'', IntStat 0),
              (''highest_cgpa'', IntStat 0),
              (''lowest_cgpa'', IntStat 0),
              (''degrees_offered'', IntStat 0),
              (''recent_graduates'', IntStat 0)]
         else
           map_of
             [(''total_students'', IntStat (int (length df))),
              (''average_cgpa'', FloatStat (round2f (series_mean xs))),
              (''median_cgpa'', FloatStat (round2f (series_median xs))),
              (''highest_cgpa'', FloatStat (round2f (series_max xs))),
              (''lowest_cgpa'', FloatStat (round2f (series_min xs))),
              (''std_dev_cgpa'', FloatStat (round2f (series_std xs))),
              (''degrees_offered'', IntStat (nunique (map degree df))),
              (''recent_graduates'', IntStat (int (length (filter (\<lambda>r. 2024 \<le> graduation_year r) df))))])"

text \<open>
  The readers of the dictionary index it with \<open>stats[key]\<close>, which raises \<open>KeyError\<close> on
  a missing key.  \<open>get_analytics\<close> prints these eight entries of every registered
  university, in this order.
\<close>

definition dict_get :: "('k \<rightharpoonup> 'v) \<Rightarrow> 'k \<Rightarrow> py_exception + 'v" where
  "dict_get d k = (case d k of None \<Rightarrow> Inl KeyError | Some v \<Rightarrow> Inr v)"

definition analytics_statistics :: "university_obj \<Rightarrow> py_exception + stat list" where
  "analytics_statistics u =
     collect (map (dict_get (get_statistics u))
       [''total_students'', ''average_cgpa'', ''median_cgpa'', ''highest_cgpa'',
        ''lowest_cgpa'', ''std_dev_cgpa'', ''degrees_offered'', ''recent_graduates''])"


section \<open>The ValidationSystem class\<close>

text \<open>
  \<open>universities\<close> holds references: \<open>register_university\<close> stores the object itself,
  and the caller goes on adding students to it afterwards (the demo registers four empty
  universities and fills them later).  The objects therefore live in a heap, the system
  holds their addresses, and every operation that reads a university takes the heap of
  the moment.  The history frame is the list of its rows; the wall-clock columns
  \<open>timestamp\<close> and \<open>processing_time\<close> are left out, as are the printed lines that divide by
  elapsed time.
\<close>

type_synonym addr = nat

type_synonym heap = "addr \<Rightarrow> university_obj"

record history_row =
  request_id :: int
  log_student_id :: string
  status :: string
  log_university :: string
  requester :: string

record validation_system =
  universities :: "addr list"
  validation_queue :: "(string \<times> string) list"
  total_requests :: int
  successful_validations :: int
  validation_history :: "history_row list"

definition init_system :: validation_system where
  "init_system =
     \<lparr>universities = [], validation_queue = [], total_requests = 0,
      successful_validations = 0, validation_history = []\<rparr>"

definition register_university :: "addr \<Rightarrow> validation_system \<Rightarrow> validation_system" where
  "register_university a s = s\<lparr>universities := universities s @ [a]\<rparr>"

definition request_validation :: "string \<Rightarrow> string \<Rightarrow> validation_system \<Rightarrow> validation_system" where
  "request_validation sid req s =
     s\<lparr>validation_queue := validation_queue s @ [(sid, req)],
       total_requests := total_requests s + 1\<rparr>"

definition request_validations_bulk ::
  "string list \<Rightarrow> string \<Rightarrow> validation_system \<Rightarrow> validation_system" where
  "request_validations_bulk student_ids req s =
     foldl (\<lambda>s sid. s\<lparr>validation_queue := validation_queue s @ [(sid, req)],
                       total_requests := total_requests s + 1\<rparr>) s student_ids"

subsection \<open>process_validations\<close>

text \<open>
  The \<open>for\<close> loop over \<open>self.universities\<close> with its \<open>break\<close>.  The result is the list of
  the universities whose \<open>verify_student\<close> was called, in call order, and the name and
  credential of the match (\<open>found_university\<close>, \<open>credential\<close>) if there is one.  A
  credential is a dictionary of seven entries, so \<open>if credential:\<close> holds exactly when
  \<open>verify_student\<close> did not return \<open>None\<close>.
\<close>

fun search_universities ::
  "heap \<Rightarrow> addr list \<Rightarrow> string \<Rightarrow> addr list \<times> (string \<times> student_row) option" where
  "search_universities h [] sid = ([], None)"
| "search_universities h (a # as) sid =
     (case verify_student (h a) sid of
        Some credential \<Rightarrow> ([a], Some (uni_name (h a), credential))
      | None \<Rightarrow>
         (case search_universities h as sid of (probed, res) \<Rightarrow> (a # probed, res)))"

text \<open>
  One turn of the \<open>while\<close> loop after \<open>popleft\<close> has taken the request off the queue:
  the search, the counter, and the row appended to the history.
\<close>

definition process_request ::
  "heap \<Rightarrow> string \<times> string \<Rightarrow> validation_system \<Rightarrow> validation_system" where
  "process_request h rq s =
     (case rq of (sid, req) \<Rightarrow>
       (case snd (search_universities h (universities s) sid) of
          Some (found_university, credential) \<Rightarrow>
            s\<lparr>successful_validations := successful_validations s + 1,
              validation_history := validation_history s @
                [\<lparr>request_id = total_requests s - int (length (validation_queue s)),
                  log_student_id = sid, status = ''Success'',
                  log_university = found_university, requester = req\<rparr>]\<rparr>
        | None \<Rightarrow>
            s\<lparr>validation_history := validation_history s @
                [\<lparr>request_id = total_requests s - int (length (validation_queue s)),
                  log_student_id = sid, status = ''Not Found'',
                  log_university = ''N/A'', requester = req\<rparr>]\<rparr>))"

lemma validation_queue_process_request [simp]:
  "validation_queue (process_request h rq s) = validation_queue s"
  by (simp add: process_request_def split: prod.splits option.splits)

function process_loop :: "heap \<Rightarrow> validation_system \<Rightarrow> validation_system" where
  "process_loop h s =
     (case validation_queue s of
        [] \<Rightarrow> s
      | rq # rest \<Rightarrow> process_loop h (process_request h rq (s\<lparr>validation_queue := rest\<rparr>)))"
  by pat_completeness auto
termination
  by (relation "measure (\<lambda>(h, s). length (validation_queue s))") auto

declare process_loop.simps [simp del]

text \<open>
  The success percentage printed in the batch summary,
  \<open>self.successful_validations/self.total_requests*100\<close>.
\<close>

definition success_percent :: "validation_system \<Rightarrow> py_exception + real" where
  "success_percent s =
     (case py_truediv (successful_validations s) (total_requests s) of
        Inl e \<Rightarrow> Inl e
      | Inr q \<Rightarrow> Inr (q * 100))"

text \<open>
  \<open>process_validations\<close> returns at once on an empty queue.  Otherwise it runs the loop
  and prints the summary.  The result is the system after the call and, when the summary
  is reached, the outcome of its success percentage.
\<close>

definition process_validations ::
  "heap \<Rightarrow> validation_system \<Rightarrow> validation_system \<times> (py_exception + real) option" where
  "process_validations h s =
     (if validation_queue s = [] then (s, None)
      else let s' = process_loop h s in (s', Some (success_percent s')))"

subsection \<open>get_analytics and export_comprehensive_report\<close>

text \<open>
  Neither method assigns to an attribute of the system.  The success rate of
  \<open>get_analytics\<close> is printed under \<open>if self.total_requests > 0\<close> (\<open>None\<close>: no line is
  printed); the report's summary sheet holds
  \<open>round((successful/total*100) if total > 0 else 0, 2)\<close>.
\<close>

definition analytics_success_rate :: "validation_system \<Rightarrow> py_exception + real option" where
  "analytics_success_rate s =
     (if 0 < total_requests s then
        (case success_percent s of Inl e \<Rightarrow> Inl e | Inr r \<Rightarrow> Inr (Some r))
      else Inr None)"

definition report_success_rate :: "validation_system \<Rightarrow> py_exception + real" where
  "report_success_rate s =
     (if 0 < total_requests s then
        (case success_percent s of Inl e \<Rightarrow> Inl e | Inr r \<Rightarrow> Inr (round2 r))
      else Inr (round2 0))"

subsection \<open>The operations of a run\<close>

datatype operation =
    Register addr
  | Submit string string
  | SubmitBulk "string list" string
  | ProcessAll
  | Analytics
  | Export

fun apply_operation :: "heap \<Rightarrow> operation \<Rightarrow> validation_system \<Rightarrow> validation_system" where
  "apply_operation h (Register a) s = register_university a s"
| "apply_operation h (Submit sid req) s = request_validation sid req s"
| "apply_operation h (SubmitBulk sids req) s = request_validations_bulk sids req s"
| "apply_operation h ProcessAll s = fst (process_validations h s)"
| "apply_operation h Analytics s = s"
| "apply_operation h Export s = s"

text \<open>
  The states a system can be in: the fresh system, and whatever an operation makes of a
  reachable state, under any contents of the universities at that moment.
\<close>

inductive reachable :: "validation_system \<Rightarrow> bool" where
  reachable_init: "reachable init_system"
| reachable_step: "reachable s \<Longrightarrow> reachable (apply_operation h opn s)"

text \<open>The requests an operation puts on the queue, in order.\<close>

fun requests_of :: "operation \<Rightarrow> (string \<times> string) list" where
  "requests_of (Submit sid req) = [(sid, req)]"
| "requests_of (SubmitBulk sids req) = map (\<lambda>sid. (sid, req)) sids"
| "requests_of opn = []"


section \<open>Notions of the properties and data of the examples\<close>

text \<open>
  The concrete examples below pass numbers, \<open>None\<close> and the string \<open>abc\<close>; their readers
  take no string for a numeric literal.
\<close>

definition rejecting_parsers :: str_parsers where
  "rejecting_parsers = \<lparr>float_of_str = (\<lambda>s. None), int_of_str = (\<lambda>s. None)\<rparr>"











text \<open>A small store with a tie, for the examples.\<close>

definition demo_row :: "string \<Rightarrow> real \<Rightarrow> student_row" where
  "demo_row sid c =
     \<lparr>student_id = Some sid, name = Some ''Alice'', university = ''MIT'', degree = Some ''CS'',
      cgpa = Num c, graduation_year = 2023, enrollment_date = ''2024-05-01''\<rparr>"

definition demo_store :: university_obj where
  "demo_store =
     \<lparr>uni_name = ''MIT'', csv_file = csv_path ''MIT'',
      students_df = [demo_row ''MIT001'' 3.5, demo_row ''MIT002'' 3.9, demo_row ''MIT003'' 3.5]\<rparr>"

text \<open>
  The history row of one request, as a function of the request, the registered
  universities and the request number, and the rows of a whole queue; they are what the
  loop is shown to append.  \<open>request_key\<close> is the request a history row answers.
\<close>

definition log_row :: "heap \<Rightarrow> addr list \<Rightarrow> int \<Rightarrow> string \<times> string \<Rightarrow> history_row" where
  "log_row h us rid rq =
     (case rq of (sid, req) \<Rightarrow>
       (case snd (search_universities h us sid) of
          Some (found_university, credential) \<Rightarrow>
            \<lparr>request_id = rid, log_student_id = sid, status = ''Success'',
             log_university = found_university, requester = req\<rparr>
        | None \<Rightarrow>
            \<lparr>request_id = rid, log_student_id = sid, status = ''Not Found'',
             log_university = ''N/A'', requester = req\<rparr>))"

fun log_rows :: "heap \<Rightarrow> addr list \<Rightarrow> int \<Rightarrow> (string \<times> string) list \<Rightarrow> history_row list" where
  "log_rows h us rid [] = []"
| "log_rows h us rid (rq # rest) = log_row h us rid rq # log_rows h us (rid + 1) rest"

definition request_key :: "history_row \<Rightarrow> string \<times> string" where
  "request_key e = (log_student_id e, requester e)"

text \<open>
  The counters of a reachable system: the successes are not negative and, together with
  the requests still queued, do not exceed the requests submitted.
\<close>

definition counters_inv :: "validation_system \<Rightarrow> bool" where
  "counters_inv s =
     (0 \<le> successful_validations s
      \<and> successful_validations s + int (length (validation_queue s)) \<le> total_requests s)"


definition demo_heap :: heap where
  "demo_heap a =
     (if a = 0 then new_university ''Stanford University''
      else if a = 1 then demo_store
      else demo_store\<lparr>uni_name := ''Harvard University''\<rparr>)"

section \<open>Properties of the University class\<close>

subsection \<open>Shared facts\<close>

lemma loc_append: "loc (xs @ ys) sid = loc xs sid @ loc ys sid"
  by (simp add: loc_def)

lemma verify_student_absent: "loc (students_df u) sid = [] \<Longrightarrow> verify_student u sid = None"
  by (simp add: verify_student_def)

lemma add_student_True:
  "add_student P today u sid nm dg cg yr = (True, u') \<Longrightarrow>
     \<exists>c y. py_float P cg = Inr c \<and> py_int P yr = Inr y \<and>
       u' = u\<lparr>students_df := students_df u @
                [\<lparr>student_id = Some sid, name = Some nm, university = uni_name u,
                  degree = Some dg, cgpa = c, graduation_year = y,
                  enrollment_date = today\<rparr>]\<rparr>"
  by (auto simp: add_student_def split: sum.splits)

subsection \<open>C6: a coercion failure in add_student\<close>

text \<open>
  Claim C6.  When \<open>float(cgpa)\<close> raises or \<open>int(graduation_year)\<close> raises,
  \<open>add_student\<close> returns \<open>False\<close> and the university is as it was before the call: no row
  was inserted.  The method raises nothing to its caller, whatever the arguments: its
  \<open>except\<close> clause catches every exception of the block, which is why the model is a
  total function into a flag and an object.
\<close>

theorem add_student_coercion_failure:
  "(\<exists>e. py_float P cg = Inl e) \<or> (\<exists>e. py_int P yr = Inl e) \<Longrightarrow>
     add_student P today u sid nm deg cg yr = (False, u)"
  by (auto simp: add_student_def split: sum.splits)

theorem add_student_coercion_failure_witness:
  "add_student rejecting_parsers ''2024-05-01'' (new_university ''MIT'') ''MIT001'' ''Alice'' ''CS''
      (PyStr ''abc'') (PyInt 2023) = (False, new_university ''MIT'')
   \<and> add_student rejecting_parsers ''2024-05-01'' (new_university ''MIT'') ''MIT001'' ''Alice'' ''CS''
      (PyFloat (Num 3.5)) PyNone = (False, new_university ''MIT'')"
proof -
  have a: "\<exists>e. py_float rejecting_parsers (PyStr ''abc'') = Inl e"
    by (simp add: rejecting_parsers_def)
  have b: "\<exists>e. py_int rejecting_parsers PyNone = Inl e"
    by simp
  show ?thesis
    using add_student_coercion_failure [of rejecting_parsers "PyStr ''abc''" "PyInt 2023", OF disjI1, OF a]
      add_student_coercion_failure [of rejecting_parsers _ PyNone, OF disjI2, OF b]
    by simp
qed

subsection \<open>C3: the statistics of an empty store\<close>

text \<open>
  Claim C3 says that on an empty store every numeric statistic, the standard deviation
  among them, is present and zero.  The code's dictionary for the empty store has the
  seven other statistics at zero and no entry \<open>std_dev_cgpa\<close>, although the branch for a
  non-empty store has it and \<open>get_analytics\<close> reads \<open>stats['std_dev_cgpa']\<close> of every
  registered university: on an empty one that read raises \<open>KeyError\<close>.
\<close>

theorem get_statistics_empty_store:
  "students_df u = [] \<Longrightarrow>
     get_statistics u ''std_dev_cgpa'' = None
     \<and> get_statistics u ''total_students'' = Some (IntStat 0)
     \<and> get_statistics u ''average_cgpa'' = Some (IntStat 0)
     \<and> get_statistics u ''median_cgpa'' = Some (IntStat 0)
     \<and> get_statistics u ''highest_cgpa'' = Some (IntStat 0)
     \<and> get_statistics u ''lowest_cgpa'' = Some (IntStat 0)
     \<and> get_statistics u ''degrees_offered'' = Some (IntStat 0)
     \<and> get_statistics u ''recent_graduates'' = Some (IntStat 0)
     \<and> analytics_statistics u = Inl KeyError"
  by (simp add: get_statistics_def analytics_statistics_def dict_get_def)

theorem get_statistics_empty_store_witness:
  "get_statistics (new_university ''MIT'') ''std_dev_cgpa'' = None
   \<and> get_statistics (new_university ''MIT'') ''total_students'' = Some (IntStat 0)
   \<and> analytics_statistics (new_university ''MIT'') = Inl KeyError"
  using get_statistics_empty_store [of "new_university ''MIT''"]
  by (simp add: new_university_def)

text \<open>The sibling branch: a store with at least one row does report the key.\<close>

lemma get_statistics_nonempty_std:
  "students_df u \<noteq> [] \<Longrightarrow> get_statistics u ''std_dev_cgpa'' \<noteq> None"
  by (simp add: get_statistics_def Let_def)

subsection \<open>C9: looking up an id that was added twice\<close>

text \<open>
  Claim C9 says that after two successful \<open>add\<close> calls with the same id both entries are
  in the store and \<open>lookup\<close> returns a matching record.  Both rows are indeed in the
  frame, but \<open>verify_student\<close> then returns \<open>None\<close>: \<open>.loc\<close> yields both rows, the
  conversion \<open>int(student_data['graduation_year'])\<close> raises, and the \<open>except\<close> clause
  answers \<open>None\<close>, the same answer as for an unknown id.
\<close>

theorem verify_student_duplicate_id:
  assumes "add_student P t1 u sid nm1 dg1 cg1 yr1 = (True, u1)"
    and "add_student P t2 u1 sid nm2 dg2 cg2 yr2 = (True, u2)"
  shows "length (students_df u2) = length (students_df u) + 2
     \<and> 2 \<le> length (loc (students_df u2) sid)
     \<and> verify_student u2 sid = None"
proof -
  from add_student_True [OF assms(1)] obtain r1 where
    u1: "students_df u1 = students_df u @ [r1]" and r1: "student_id r1 = Some sid"
    by auto
  from add_student_True [OF assms(2)] obtain r2 where
    u2: "students_df u2 = students_df u1 @ [r2]" and r2: "student_id r2 = Some sid"
    by auto
  have l: "loc (students_df u2) sid = loc (students_df u) sid @ [r1, r2]"
    using u1 u2 r1 r2 by (simp add: loc_def)
  have "verify_student u2 sid = None"
    unfolding verify_student_def l
    by (cases "loc (students_df u) sid" rule: list.exhaust) (auto split: list.splits)
  then show ?thesis using l u1 u2 by simp
qed

theorem verify_student_duplicate_id_witness:
  "add_student rejecting_parsers ''2024-05-01'' (new_university ''MIT'')
       ''MIT001'' ''Alice'' ''CS'' (PyFloat (Num 3.5)) (PyInt 2023)
     = (True, \<lparr>uni_name = ''MIT'', csv_file = csv_path ''MIT'', students_df =
         [\<lparr>student_id = Some ''MIT001'', name = Some ''Alice'', university = ''MIT'',
           degree = Some ''CS'', cgpa = Num 3.5, graduation_year = 2023,
           enrollment_date = ''2024-05-01''\<rparr>]\<rparr>)
   \<and> verify_student
       (snd (add_student rejecting_parsers ''2024-05-02''
          (snd (add_student rejecting_parsers ''2024-05-01'' (new_university ''MIT'')
             ''MIT001'' ''Alice'' ''CS'' (PyFloat (Num 3.5)) (PyInt 2023)))
          ''MIT001'' ''Alice'' ''CS'' (PyFloat (Num 3.5)) (PyInt 2023)))
       ''MIT001'' = None"
proof -
  let ?u0 = "new_university ''MIT''"
  obtain u1 where 1: "add_student rejecting_parsers ''2024-05-01'' ?u0
       ''MIT001'' ''Alice'' ''CS'' (PyFloat (Num 3.5)) (PyInt 2023) = (True, u1)"
    by (simp add: add_student_def)
  obtain u2 where 2: "add_student rejecting_parsers ''2024-05-02'' u1
       ''MIT001'' ''Alice'' ''CS'' (PyFloat (Num 3.5)) (PyInt 2023) = (True, u2)"
    by (simp add: add_student_def)
  from verify_student_duplicate_id [OF 1 2] have "verify_student u2 ''MIT001'' = None"
    by simp
  with 1 2 show ?thesis
    by (simp add: add_student_def new_university_def)
qed

subsection \<open>C4: looking up a student that was just added\<close>

text \<open>
  Claim C4, as amended.  If \<open>sid\<close> labels no row of the store and \<open>add_student\<close> succeeds,
  then \<open>verify_student\<close> returns a record with the \<open>student_id\<close>, \<open>name\<close> and \<open>degree\<close>
  that were passed, with \<open>cgpa\<close> the float that \<open>float(cgpa)\<close> gave and \<open>graduation_year\<close>
  the integer that \<open>int(graduation_year)\<close> gave (the passed year itself when it is an
  integer), with \<open>university\<close> the store's name and \<open>enrollment_date\<close> the date of the
  insertion.
\<close>

theorem add_student_then_verify:
  assumes "loc (students_df u) sid = []"
    and "add_student P today u sid nm dg cg yr = (True, u')"
  shows "\<exists>r. verify_student u' sid = Some r
     \<and> student_id r = Some sid \<and> name r = Some nm \<and> degree r = Some dg
     \<and> py_float P cg = Inr (cgpa r) \<and> py_int P yr = Inr (graduation_year r)
     \<and> university r = uni_name u' \<and> enrollment_date r = today"
proof -
  from add_student_True [OF assms(2)] obtain c y where
    c: "py_float P cg = Inr c" and y: "py_int P yr = Inr y" and
    u': "u' = u\<lparr>students_df := students_df u @
                [\<lparr>student_id = Some sid, name = Some nm, university = uni_name u,
                  degree = Some dg, cgpa = c, graduation_year = y,
                  enrollment_date = today\<rparr>]\<rparr>"
    by blast
  have "loc (students_df u') sid =
      [\<lparr>student_id = Some sid, name = Some nm, university = uni_name u,
         degree = Some dg, cgpa = c, graduation_year = y, enrollment_date = today\<rparr>]"
    using assms(1) by (simp add: u' loc_append) (simp add: loc_def)
  then show ?thesis
    using c y by (simp add: verify_student_def u')
qed

theorem add_student_then_verify_witness:
  "verify_student
     (snd (add_student rejecting_parsers ''2024-05-01'' (new_university ''MIT'')
        ''MIT001'' ''Alice'' ''CS'' (PyFloat (Num 3.85)) (PyInt 2023))) ''MIT001''
   = Some \<lparr>student_id = Some ''MIT001'', name = Some ''Alice'', university = ''MIT'',
       degree = Some ''CS'', cgpa = Num 3.85, graduation_year = 2023,
       enrollment_date = ''2024-05-01''\<rparr>"
proof -
  let ?u0 = "new_university ''MIT''"
  have 0: "loc (students_df ?u0) ''MIT001'' = []"
    by (simp add: new_university_def loc_def)
  obtain u1 where 1: "add_student rejecting_parsers ''2024-05-01'' ?u0
       ''MIT001'' ''Alice'' ''CS'' (PyFloat (Num 3.85)) (PyInt 2023) = (True, u1)"
    by (simp add: add_student_def)
  from add_student_then_verify [OF 0 1] obtain r where
    "verify_student u1 ''MIT001'' = Some r" "student_id r = Some ''MIT001''"
    "name r = Some ''Alice''" "degree r = Some ''CS''" "cgpa r = Num 3.85"
    "graduation_year r = 2023" "university r = uni_name u1" "enrollment_date r = ''2024-05-01''"
    by auto
  moreover have "uni_name u1 = ''MIT''"
    using 1 by (auto simp: add_student_def new_university_def)
  ultimately show ?thesis
    using 1 by (cases r) simp
qed

text \<open>
  The claim as it was stated asks for the very year that was passed.  A year that is not
  an integer is stored truncated: \<open>add_student(..., 3.85, 2023.5)\<close> succeeds and the
  lookup answers 2023.
\<close>

theorem add_student_year_counterexample:
  "fst (add_student rejecting_parsers ''2024-05-01'' (new_university ''MIT'')
        ''MIT001'' ''Alice'' ''CS'' (PyFloat (Num 3.85)) (PyFloat (Num 2023.5)))
   \<and> map_option graduation_year
       (verify_student
         (snd (add_student rejecting_parsers ''2024-05-01'' (new_university ''MIT'')
            ''MIT001'' ''Alice'' ''CS'' (PyFloat (Num 3.85)) (PyFloat (Num 2023.5)))) ''MIT001'')
     = Some 2023
   \<and> PyInt 2023 \<noteq> PyFloat (Num 2023.5)"
  by (simp add: add_student_def new_university_def verify_student_def loc_def trunc_def)

subsection \<open>C7: add_students_bulk is all or nothing\<close>













subsection \<open>C5: get_top_students\<close>














section \<open>Properties of the ValidationSystem class\<close>

subsection \<open>Shared facts\<close>

lemma process_request_fields [simp]:
  "universities (process_request h rq s) = universities s"
  "total_requests (process_request h rq s) = total_requests s"
  by (simp_all add: process_request_def split: prod.splits option.splits)

lemma process_request_history:
  "validation_history (process_request h rq s) =
     validation_history s @
       [log_row h (universities s) (total_requests s - int (length (validation_queue s))) rq]"
  by (simp add: process_request_def log_row_def split: prod.splits option.splits)

lemma process_request_successful:
  "successful_validations (process_request h rq s) =
     successful_validations s + (if snd (search_universities h (universities s) (fst rq)) = None then 0 else 1)"
  by (simp add: process_request_def split: prod.splits option.splits)

lemma process_loop_queue [simp]: "validation_queue (process_loop h s) = []"
proof (induction h s rule: process_loop.induct)
  case (1 h s)
  show ?case
  proof (cases "validation_queue s")
    case Nil
    then show ?thesis by (subst process_loop.simps) simp
  next
    case (Cons rq rest)
    with "1.IH" [OF Cons] show ?thesis by (subst process_loop.simps) simp
  qed
qed

lemma process_loop_fields [simp]:
  "universities (process_loop h s) = universities s \<and> total_requests (process_loop h s) = total_requests s"
proof (induction h s rule: process_loop.induct)
  case (1 h s)
  show ?case
  proof (cases "validation_queue s")
    case Nil
    then show ?thesis by (subst (1 2) process_loop.simps) simp
  next
    case (Cons rq rest)
    with "1.IH" [OF Cons] show ?thesis by (subst (1 2) process_loop.simps) simp
  qed
qed

lemma process_loop_history:
  "validation_history (process_loop h s) =
     validation_history s @
       log_rows h (universities s) (total_requests s - int (length (validation_queue s)) + 1)
         (validation_queue s)"
proof (induction h s rule: process_loop.induct)
  case (1 h s)
  show ?case
  proof (cases "validation_queue s")
    case Nil
    then show ?thesis by (subst process_loop.simps) simp
  next
    case (Cons rq rest)
    have "validation_history (process_loop h s) =
        validation_history (process_loop h (process_request h rq (s\<lparr>validation_queue := rest\<rparr>)))"
      using Cons by (subst process_loop.simps) simp
    also have "\<dots> = validation_history s @
        log_row h (universities s) (total_requests s - int (length rest)) rq
          # log_rows h (universities s) (total_requests s - int (length rest) + 1) rest"
      by (simp add: "1.IH" [OF Cons] process_request_history)
    finally show ?thesis
      using Cons by simp
  qed
qed

lemma process_loop_successful:
  "successful_validations s \<le> successful_validations (process_loop h s)
   \<and> successful_validations (process_loop h s)
       \<le> successful_validations s + int (length (validation_queue s))"
proof (induction h s rule: process_loop.induct)
  case (1 h s)
  show ?case
  proof (cases "validation_queue s")
    case Nil
    then show ?thesis by (subst (1 2) process_loop.simps) simp
  next
    case (Cons rq rest)
    have e: "process_loop h s = process_loop h (process_request h rq (s\<lparr>validation_queue := rest\<rparr>))"
      using Cons by (subst process_loop.simps) simp
    show ?thesis
      unfolding e using "1.IH" [OF Cons] Cons
      by (simp add: process_request_successful split: if_splits)
  qed
qed

lemma request_key_log_rows: "map request_key (log_rows h us rid q) = q"
  by (induction q arbitrary: rid) (auto simp: request_key_def log_row_def split: option.splits)

lemma length_log_rows [simp]: "length (log_rows h us rid q) = length q"
  by (induction q arbitrary: rid) auto


lemma request_validations_bulk_eq:
  "request_validations_bulk sids req s =
     s\<lparr>validation_queue := validation_queue s @ map (\<lambda>sid. (sid, req)) sids,
       total_requests := total_requests s + int (length sids)\<rparr>"
  unfolding request_validations_bulk_def
  by (induction sids arbitrary: s) (simp_all add: algebra_simps)

lemma apply_operation_queue:
  "opn \<noteq> ProcessAll \<Longrightarrow>
     validation_queue (apply_operation h opn s) = validation_queue s @ requests_of opn"
  by (cases opn)
    (simp_all add: register_university_def request_validation_def request_validations_bulk_eq)

lemma apply_operation_history:
  "opn \<noteq> ProcessAll \<Longrightarrow> validation_history (apply_operation h opn s) = validation_history s"
  by (cases opn)
    (simp_all add: register_university_def request_validation_def request_validations_bulk_eq)



lemma foldl_apply_operation:
  "list_all (\<lambda>opn. opn \<noteq> ProcessAll) ops \<Longrightarrow>
     validation_queue (foldl (\<lambda>s opn. apply_operation h opn s) s ops)
        = validation_queue s @ concat (map requests_of ops)
     \<and> validation_history (foldl (\<lambda>s opn. apply_operation h opn s) s ops) = validation_history s"
  by (induction ops arbitrary: s) (simp_all add: apply_operation_queue apply_operation_history)

lemma process_validations_state:
  "validation_queue (fst (process_validations h s)) = []
   \<and> validation_history (fst (process_validations h s)) =
       validation_history s @
         log_rows h (universities s) (total_requests s - int (length (validation_queue s)) + 1)
           (validation_queue s)"
  by (simp add: process_validations_def Let_def process_loop_history)

lemma process_validations_counters:
  "total_requests (fst (process_validations h s)) = total_requests s
   \<and> successful_validations s \<le> successful_validations (fst (process_validations h s))
   \<and> successful_validations (fst (process_validations h s))
        \<le> successful_validations s + int (length (validation_queue s))"
  using process_loop_successful [of s h]
  by (simp add: process_validations_def Let_def)

lemma apply_operation_counters:
  "total_requests s \<le> total_requests (apply_operation h opn s)
   \<and> successful_validations s \<le> successful_validations (apply_operation h opn s)"
  using process_validations_counters [of h s]
  by (cases opn)
    (simp_all add: register_university_def request_validation_def request_validations_bulk_eq)

lemma counters_inv_step: "counters_inv s \<Longrightarrow> counters_inv (apply_operation h opn s)"
proof (cases opn)
  case ProcessAll
  assume "counters_inv s"
  then show ?thesis
    using process_validations_counters [of h s] process_validations_state [of h s] ProcessAll
    by (simp add: counters_inv_def)
qed (simp_all add: counters_inv_def register_university_def request_validation_def
    request_validations_bulk_eq)

lemma reachable_counters_inv: "reachable s \<Longrightarrow> counters_inv s"
proof (induction rule: reachable.induct)
  case reachable_init
  show ?case by (simp add: counters_inv_def init_system_def)
next
  case (reachable_step s h opn)
  then show ?case by (simp add: counters_inv_step)
qed


subsection \<open>C1: requests are answered in submission order\<close>

text \<open>
  Claim C1.  Let requests be submitted to any system, singly or in bulk, by any sequence
  of operations other than \<open>process_validations\<close>.  Then \<open>process_validations\<close> leaves
  the queue empty, and the history afterwards is the history before, followed by one row
  for each request that was queued before and then for each submitted request, in
  submission order (bulk submissions in the order of their list), whatever the
  universities hold.
\<close>

theorem process_validations_fifo:
  assumes "list_all (\<lambda>opn. opn \<noteq> ProcessAll) ops"
  shows "validation_queue (fst (process_validations h' (foldl (\<lambda>s opn. apply_operation h opn s) s ops))) = []
     \<and> map request_key
          (validation_history (fst (process_validations h' (foldl (\<lambda>s opn. apply_operation h opn s) s ops))))
        = map request_key (validation_history s) @ validation_queue s @ concat (map requests_of ops)"
  using foldl_apply_operation [OF assms, of h s]
  by (simp add: process_validations_state request_key_log_rows)

theorem process_validations_fifo_witness:
  "list_all (\<lambda>opn. opn \<noteq> ProcessAll) [Submit ''MIT001'' ''Google Inc.'', SubmitBulk [''MIT999'', ''MIT002''] ''Tesla'']
   \<and> validation_queue (fst (process_validations demo_heap
        (foldl (\<lambda>s opn. apply_operation demo_heap opn s) init_system
           [Submit ''MIT001'' ''Google Inc.'', SubmitBulk [''MIT999'', ''MIT002''] ''Tesla'']))) = []
   \<and> map request_key (validation_history (fst (process_validations demo_heap
        (foldl (\<lambda>s opn. apply_operation demo_heap opn s) init_system
           [Submit ''MIT001'' ''Google Inc.'', SubmitBulk [''MIT999'', ''MIT002''] ''Tesla'']))))
      = [(''MIT001'', ''Google Inc.''), (''MIT999'', ''Tesla''), (''MIT002'', ''Tesla'')]"
proof -
  have a: "list_all (\<lambda>opn. opn \<noteq> ProcessAll)
      [Submit ''MIT001'' ''Google Inc.'', SubmitBulk [''MIT999'', ''MIT002''] ''Tesla'']"
    by simp
  have i: "validation_history init_system = []" "validation_queue init_system = []"
    by (simp_all add: init_system_def)
  show ?thesis
    using process_validations_fifo [OF a, of demo_heap demo_heap init_system] a
    by (simp only: i) simp
qed

subsection \<open>C2: universities are probed in registration order\<close>



subsection \<open>C10: the counters\<close>

text \<open>
  Claim C10.  In every reachable state \<open>successful_validations\<close> is at most
  \<open>total_requests\<close>, and no operation decreases either counter: a submission adds the
  number of requests it enqueues to \<open>total_requests\<close> and leaves
  \<open>successful_validations\<close> alone, \<open>process_validations\<close> leaves \<open>total_requests\<close> alone and
  adds at most one success per queued request, and the analytics and the export change
  nothing.
\<close>

theorem counters_monotone:
  assumes "reachable s"
  shows "successful_validations s \<le> total_requests s
     \<and> (\<forall>h opn. total_requests s \<le> total_requests (apply_operation h opn s)
           \<and> successful_validations s \<le> successful_validations (apply_operation h opn s))
     \<and> (\<forall>sid req. total_requests (request_validation sid req s) = total_requests s + 1
           \<and> successful_validations (request_validation sid req s) = successful_validations s)
     \<and> (\<forall>sids req. total_requests (request_validations_bulk sids req s)
             = total_requests s + int (length sids)
           \<and> successful_validations (request_validations_bulk sids req s) = successful_validations s)
     \<and> (\<forall>h. total_requests (fst (process_validations h s)) = total_requests s
           \<and> successful_validations (fst (process_validations h s))
               \<le> successful_validations s + int (length (validation_queue s)))
     \<and> (\<forall>h. apply_operation h Analytics s = s \<and> apply_operation h Export s = s)"
proof -
  have "successful_validations s \<le> total_requests s"
    using reachable_counters_inv [OF assms] by (simp add: counters_inv_def)
  then show ?thesis
    using apply_operation_counters process_validations_counters
    by (simp add: request_validation_def request_validations_bulk_eq)
qed

theorem counters_monotone_witness:
  "reachable (request_validations_bulk [''MIT001'', ''MIT999''] ''Tesla'' init_system)
   \<and> successful_validations (request_validations_bulk [''MIT001'', ''MIT999''] ''Tesla'' init_system)
       \<le> total_requests (request_validations_bulk [''MIT001'', ''MIT999''] ''Tesla'' init_system)
   \<and> total_requests (request_validations_bulk [''MIT001'', ''MIT999''] ''Tesla'' init_system) = 2
   \<and> total_requests (fst (process_validations demo_heap
        (request_validations_bulk [''MIT001'', ''MIT999''] ''Tesla'' init_system))) = 2
   \<and> successful_validations (fst (process_validations demo_heap
        (request_validations_bulk [''MIT001'', ''MIT999''] ''Tesla'' init_system))) \<le> 2"
proof -
  let ?s = "request_validations_bulk [''MIT001'', ''MIT999''] ''Tesla'' init_system"
  have r: "reachable ?s"
    using reachable_step [OF reachable_init, of demo_heap "SubmitBulk [''MIT001'', ''MIT999''] ''Tesla''"]
    by simp
  have v: "total_requests ?s = 2" "successful_validations ?s = 0" "length (validation_queue ?s) = 2"
    by (simp_all add: request_validations_bulk_def init_system_def)
  show ?thesis
    using counters_monotone [OF r] r v by simp
qed

subsection \<open>C8: the success rate never divides by zero\<close>

lemma round2_0 [simp]: "round2 0 = 0"
  by (simp add: round2_def round_half_even_def)

lemma success_percent_ok: "total_requests s \<noteq> 0 \<Longrightarrow> \<exists>r. success_percent s = Inr r"
  by (simp add: success_percent_def py_truediv_def)

text \<open>
  Claim C8.  In every reachable state the success rate of \<open>get_analytics\<close>, that of the
  exported report and the success percentage of the batch summary are computed without
  \<open>ZeroDivisionError\<close>.  When \<open>total_requests\<close> is zero, \<open>get_analytics\<close> prints no rate,
  the report holds the rate 0, and \<open>process_validations\<close> returns before any division,
  leaving the system as it is.
\<close>

theorem success_rate_guarded:
  assumes "reachable s"
  shows "(\<exists>r. analytics_success_rate s = Inr r)
     \<and> (\<exists>r. report_success_rate s = Inr r)
     \<and> (snd (process_validations h s) = None \<or> (\<exists>r. snd (process_validations h s) = Some (Inr r)))
     \<and> (total_requests s = 0 \<longrightarrow>
           analytics_success_rate s = Inr None \<and> report_success_rate s = Inr 0
           \<and> process_validations h s = (s, None))"
proof -
  have inv: "counters_inv s"
    using assms by (rule reachable_counters_inv)
  have a: "\<exists>r. analytics_success_rate s = Inr r"
    using success_percent_ok [of s] by (auto simp: analytics_success_rate_def)
  have b: "\<exists>r. report_success_rate s = Inr r"
    using success_percent_ok [of s] by (auto simp: report_success_rate_def)
  have c: "snd (process_validations h s) = None \<or> (\<exists>r. snd (process_validations h s) = Some (Inr r))"
  proof (cases "validation_queue s")
    case Nil
    then show ?thesis by (simp add: process_validations_def)
  next
    case (Cons rq rest)
    then have "total_requests (process_loop h s) \<noteq> 0"
      using inv by (simp add: counters_inv_def)
    from success_percent_ok [OF this] show ?thesis
      using Cons by (simp add: process_validations_def Let_def)
  qed
  have d: "analytics_success_rate s = Inr None \<and> report_success_rate s = Inr 0
           \<and> process_validations h s = (s, None)" if "total_requests s = 0"
  proof -
    have "validation_queue s = []"
      using inv that by (cases "validation_queue s") (auto simp: counters_inv_def)
    then show ?thesis
      using that by (simp add: analytics_success_rate_def report_success_rate_def process_validations_def)
  qed
  show ?thesis
    using a b c d by blast
qed

theorem success_rate_guarded_witness:
  "reachable init_system \<and> total_requests init_system = 0
   \<and> analytics_success_rate init_system = Inr None
   \<and> report_success_rate init_system = Inr 0
   \<and> process_validations demo_heap init_system = (init_system, None)"
proof -
  have t: "total_requests init_system = 0"
    by (simp add: init_system_def)
  show ?thesis
    using success_rate_guarded [OF reachable_init, of demo_heap] t reachable_init by simp
qed

end
